theory Spec2Isabelle
  imports Main "HOL-Library.AList"
begin

section \<open>Values, exceptions and the output stream\<close>

text \<open>
  The plugin framework of \<^verbatim>\<open>contrib/pylightning/lightning/plugin.py\<close>. A decoded
  JSON document is a Python value built from \<^verbatim>\<open>None\<close>, booleans, integers, strings,
  lists and dicts. A dict keeps its insertion order, so it is an association list that is
  read with \<^const>\<open>map_of\<close> and written with \<^const>\<open>AList.update\<close>. JSON numbers
  with a fraction or an exponent (Python floats) are outside the model.
\<close>

datatype json =
    JNull
  | JBool bool
  | JInt int
  | JStr string
  | JArr "json list"
  | JObj "(string \<times> json) list"

text \<open>
  The exceptions that the framework and the library calls it makes can raise. Every
  constructor is a subclass of Python's \<^verbatim>\<open>Exception\<close>; \<open>HandlerError\<close> stands for
  whatever a user handler raises (class name and message).
\<close>

datatype py_exn =
    ValueError string
  | KeyError string
  | TypeError string
  | IndexError string
  | JSONDecodeError
  | HandlerError string string

text \<open>
  What reaches \<^verbatim>\<open>self.stdout\<close>: \<^verbatim>\<open>json.dump(obj, fp)\<close> is one \<open>Dump obj\<close>,
  \<^verbatim>\<open>fp.write(s)\<close> is \<open>Write s\<close> and \<^verbatim>\<open>fp.flush()\<close> is \<open>Flush\<close>.
\<close>

datatype out_event = Dump json | Write string | Flush

abbreviation nl :: char where
  "nl \<equiv> CHR 0x0A"

text \<open>A text between single quotes, as Python prints a plain name in a message.\<close>

definition quoted :: "string \<Rightarrow> string" where
  "quoted s = [CHR 0x27] @ s @ [CHR 0x27]"

section \<open>\<^verbatim>\<open>str.split\<close>\<close>

text \<open>
  \<^verbatim>\<open>s.split(sep)\<close> for a non-empty separator \<open>d # ds\<close>: the text is scanned from the
  left and cut at each occurrence of the separator; \<open>acc\<close> is the current segment,
  reversed. An empty separator raises \<^verbatim>\<open>ValueError\<close>.
\<close>

fun starts_with :: "string \<Rightarrow> string \<Rightarrow> bool" where
  "starts_with [] s = True"
| "starts_with (d # ds) [] = False"
| "starts_with (d # ds) (c # cs) = (d = c \<and> starts_with ds cs)"

fun split_from :: "char \<Rightarrow> string \<Rightarrow> string \<Rightarrow> string \<Rightarrow> string list" where
  "split_from d ds acc [] = [rev acc]"
| "split_from d ds acc (c # cs) =
     (if starts_with (d # ds) (c # cs)
      then rev acc # split_from d ds [] (drop (length ds) cs)
      else split_from d ds (c # acc) cs)"

definition str_split :: "string \<Rightarrow> string \<Rightarrow> py_exn + string list" where
  "str_split s sep =
     (case sep of
        [] \<Rightarrow> Inl (ValueError ''empty separator'')
      | d # ds \<Rightarrow> Inr (split_from d ds [] s))"

section \<open>Handlers and the plugin object\<close>

text \<open>
  An argument handed to a handler is a decoded JSON value or the plugin object itself
  (\<^verbatim>\<open>kwargs['plugin'] = self\<close>).
\<close>

datatype arg = AVal json | APlugin

text \<open>
  A parameter of a signature is its name and its default value, if it has one. The
  handlers of the model declare positional-or-keyword parameters only, as every handler
  of the source does.
\<close>

type_synonym param = "string \<times> arg option"

text \<open>
  A user function is what the framework reads of it: its parameters
  (\<^verbatim>\<open>inspect.signature(func).parameters\<close>), its docstring (\<^verbatim>\<open>inspect.getdoc(func)\<close>)
  and its outcome on the bound arguments, a returned value or a raised exception of
  class \<^verbatim>\<open>Exception\<close>. A handler that writes to the plugin it receives, or that raises
  outside \<^verbatim>\<open>Exception\<close> (\<^verbatim>\<open>SystemExit\<close>, \<^verbatim>\<open>KeyboardInterrupt\<close>), which
  \<^verbatim>\<open>except Exception\<close> of line 123 does not catch, is outside the model.
\<close>

record handler =
  parameters :: "param list"
  getdoc :: "string option"
  body :: "(string \<times> arg) list \<Rightarrow> py_exn + json"

text \<open>
  The callables that the dispatch table can hold: the two bound methods
  \<^verbatim>\<open>self._getmanifest\<close> and \<^verbatim>\<open>self._init\<close>, and user functions.
\<close>

datatype func = Getmanifest | Init | User handler

fun signature :: "func \<Rightarrow> param list" where
  "signature Getmanifest = []"
| "signature Init = [(''options'', None), (''configuration'', None), (''request'', None)]"
| "signature (User h) = parameters h"

text \<open>Neither bound method has a docstring.\<close>

fun func_doc :: "func \<Rightarrow> string option" where
  "func_doc Getmanifest = None"
| "func_doc Init = None"
| "func_doc (User h) = getdoc h"

text \<open>
  The fields of \<^verbatim>\<open>Plugin\<close> that the code reads: \<^verbatim>\<open>self.methods\<close> (a dict, in insertion
  order), the stashed handler \<^verbatim>\<open>self.init\<close> and what has been written to
  \<^verbatim>\<open>self.stdout\<close>.
\<close>

record plugin =
  methods :: "(string \<times> func) list"
  init :: "func option"
  stdout :: "out_event list"

text \<open>
  Every operation returns the plugin as it has left it together with its outcome:
  \<open>Inl\<close> an exception that propagates to the caller, \<open>Inr\<close> the returned value.
\<close>

type_synonym 'a outcome = "plugin \<times> (py_exn + 'a)"

text \<open>\<^verbatim>\<open>Plugin.add_method\<close>, lines 34 to 61.\<close>

definition Plugin_add_method :: "plugin \<Rightarrow> string \<Rightarrow> func \<Rightarrow> unit outcome" where
  "Plugin_add_method self name f =
     (if name \<in> fst ` set (methods self)
      then (self, Inl (ValueError (''Name '' @ name @ '' is already bound to a method.'')))
      else (self\<lparr>methods := AList.update name f (methods self)\<rparr>, Inr ()))"

text \<open>
  \<^verbatim>\<open>Plugin.__init__\<close> with its default arguments and outside lightningd (no monkey
  patching): an empty table into which \<^verbatim>\<open>getmanifest\<close> is registered.
\<close>

definition Plugin_new :: plugin where
  "Plugin_new = fst (Plugin_add_method \<lparr>methods = [], init = None, stdout = []\<rparr> ''getmanifest'' Getmanifest)"

text \<open>\<^verbatim>\<open>Plugin.notify\<close> and \<^verbatim>\<open>Plugin.log\<close>, lines 96 to 107.\<close>

definition Plugin_notify :: "plugin \<Rightarrow> string \<Rightarrow> json \<Rightarrow> plugin" where
  "Plugin_notify self method params =
     self\<lparr>stdout := stdout self @
       [Dump (JObj [(''jsonrpc'', JStr ''2.0''), (''method'', JStr method), (''params'', params)]),
        Write [nl, nl],
        Flush]\<rparr>"

definition Plugin_log :: "plugin \<Rightarrow> string \<Rightarrow> string \<Rightarrow> plugin" where
  "Plugin_log self message level =
     Plugin_notify self ''log'' (JObj [(''level'', JStr level), (''message'', JStr message)])"

section \<open>Binding the arguments\<close>

text \<open>
  \<^verbatim>\<open>inspect.Signature.bind\<close> for positional-or-keyword parameters. The positional
  arguments are bound to the leading parameters; a parameter bound by position must not
  be named in \<open>kwargs\<close> too.
\<close>

fun bind_positional ::
  "param list \<Rightarrow> arg list \<Rightarrow> (string \<times> arg) list \<Rightarrow> py_exn + ((string \<times> arg) list \<times> param list)" where
  "bind_positional ps [] kwargs = Inr ([], ps)"
| "bind_positional [] (a # as) kwargs = Inl (TypeError ''too many positional arguments'')"
| "bind_positional (p # ps) (a # as) kwargs =
     (if fst p \<in> fst ` set kwargs
      then Inl (TypeError (''multiple values for argument '' @ quoted (fst p)))
      else (case bind_positional ps as kwargs of
              Inl e \<Rightarrow> Inl e
            | Inr (bound, rest) \<Rightarrow> Inr ((fst p, a) # bound, rest)))"

text \<open>
  The remaining parameters take their value from \<open>kwargs\<close> (\<^verbatim>\<open>kwargs.pop\<close>); one that is
  not named there must have a default. The keywords left over are returned.
\<close>

fun bind_keywords ::
  "param list \<Rightarrow> (string \<times> arg) list \<Rightarrow> py_exn + ((string \<times> arg) list \<times> (string \<times> arg) list)" where
  "bind_keywords [] kwargs = Inr ([], kwargs)"
| "bind_keywords (p # ps) kwargs =
     (case map_of kwargs (fst p) of
        Some v \<Rightarrow>
          (case bind_keywords ps (AList.delete (fst p) kwargs) of
             Inl e \<Rightarrow> Inl e
           | Inr (bound, left) \<Rightarrow> Inr ((fst p, v) # bound, left))
      | None \<Rightarrow>
          (case snd p of
             None \<Rightarrow> Inl (TypeError (''missing a required argument: '' @ quoted (fst p)))
           | Some d \<Rightarrow> bind_keywords ps kwargs))"

definition bind ::
  "param list \<Rightarrow> arg list \<Rightarrow> (string \<times> arg) list \<Rightarrow> py_exn + (string \<times> arg) list" where
  "bind sig args kwargs =
     (case bind_positional sig args kwargs of
        Inl e \<Rightarrow> Inl e
      | Inr (bound, rest) \<Rightarrow>
          (case bind_keywords rest kwargs of
             Inl e \<Rightarrow> Inl e
           | Inr (named, left) \<Rightarrow>
               (case left of
                  [] \<Rightarrow> Inr (bound @ named)
                | (k, v) # _ \<Rightarrow>
                    Inl (TypeError (''got an unexpected keyword argument '' @ quoted k)))))"

text \<open>
  \<^verbatim>\<open>BoundArguments.apply_defaults\<close>: the arguments in the order of the signature, a
  parameter that was not bound taking its default.
\<close>

fun apply_defaults :: "param list \<Rightarrow> (string \<times> arg) list \<Rightarrow> (string \<times> arg) list" where
  "apply_defaults [] bound = []"
| "apply_defaults (p # ps) bound =
     (case map_of bound (fst p) of
        Some v \<Rightarrow> (fst p, v) # apply_defaults ps bound
      | None \<Rightarrow>
          (case snd p of
             Some d \<Rightarrow> (fst p, d) # apply_defaults ps bound
           | None \<Rightarrow> apply_defaults ps bound))"

section \<open>Library calls taken as parameters\<close>

text \<open>
  Three calls into the Python library whose results depend on text that the source does
  not fix are parameters of the model: \<^verbatim>\<open>json.loads\<close>, \<^verbatim>\<open>traceback.format_exc()\<close> (the
  text of the traceback of the exception being handled) and \<^verbatim>\<open>'{}'.format(x)\<close> (the text
  of a value).
\<close>

record stdlib =
  json_loads :: "string \<Rightarrow> py_exn + json"
  format_exc :: "py_exn \<Rightarrow> string"
  str_format :: "json \<Rightarrow> string"

text \<open>\<^verbatim>\<open>request[key]\<close>: only a dict can be subscripted with a string.\<close>

fun getitem :: "json \<Rightarrow> string \<Rightarrow> py_exn + json" where
  "getitem (JObj kvs) k = (case map_of kvs k of None \<Rightarrow> Inl (KeyError k) | Some v \<Rightarrow> Inr v)"
| "getitem (JArr xs) k = Inl (TypeError ''list indices must be integers or slices, not str'')"
| "getitem (JStr s) k = Inl (TypeError ''string indices must be integers'')"
| "getitem (JInt i) k = Inl (TypeError (quoted ''int'' @ '' object is not subscriptable''))"
| "getitem (JBool b) k = Inl (TypeError (quoted ''bool'' @ '' object is not subscriptable''))"
| "getitem JNull k = Inl (TypeError (quoted ''NoneType'' @ '' object is not subscriptable''))"

text \<open>
  \<^verbatim>\<open>name in self.methods\<close> and \<^verbatim>\<open>self.methods[name]\<close> for a decoded \<open>name\<close>: the keys
  of the table are strings, a list or a dict cannot be hashed, and any other value is
  not a key.
\<close>

fun lookup_method :: "(string \<times> func) list \<Rightarrow> json \<Rightarrow> py_exn + func option" where
  "lookup_method ms (JStr name) = Inr (map_of ms name)"
| "lookup_method ms (JArr xs) = Inl (TypeError (''unhashable type: '' @ quoted ''list''))"
| "lookup_method ms (JObj kvs) = Inl (TypeError (''unhashable type: '' @ quoted ''dict''))"
| "lookup_method ms v = Inr None"

section \<open>The manifest\<close>

text \<open>
  \<^verbatim>\<open>Plugin._getmanifest\<close>, lines 154 to 177. The loop over \<^verbatim>\<open>self.methods.items()\<close>
  carries the plugin (it logs) and the list \<^verbatim>\<open>methods\<close> built so far.
\<close>

fun getmanifest_loop :: "plugin \<Rightarrow> (string \<times> func) list \<Rightarrow> json list \<Rightarrow> plugin \<times> json list" where
  "getmanifest_loop self [] ms = (self, ms)"
| "getmanifest_loop self ((name, f) # items) ms =
     (if name \<in> set [''getmanifest'', ''init''] then getmanifest_loop self items ms
      else (case func_doc f of
              Some (c # cs) \<Rightarrow>
                getmanifest_loop self items
                  (ms @ [JObj [(''name'', JStr name), (''description'', JStr (c # cs))]])
            | _ \<Rightarrow>
                getmanifest_loop
                  (Plugin_log self
                     (''RPC method '' @ quoted name @ '' does not have a docstring.'')
                     ''info'')
                  items
                  (ms @ [JObj [(''name'', JStr name),
                               (''description'', JStr ''Undocumented RPC method from a plugin.'')]])))"

definition Plugin_getmanifest :: "plugin \<Rightarrow> json outcome" where
  "Plugin_getmanifest self =
     (case getmanifest_loop self (methods self) [] of
        (self', ms) \<Rightarrow> (self', Inr (JObj [(''options'', JArr []), (''rpcmethods'', JArr ms)])))"

section \<open>Dispatch\<close>

text \<open>Lines 80 and 81: the positional and the named arguments that the call supplies.\<close>

fun params_args :: "json \<Rightarrow> arg list" where
  "params_args (JArr xs) = map AVal xs"
| "params_args v = []"

fun params_kwargs :: "json \<Rightarrow> (string \<times> arg) list" where
  "params_kwargs (JObj kvs) = map (\<lambda>(k, v). (k, AVal v)) kvs"
| "params_kwargs v = []"

text \<open>Lines 86 to 90: the two reserved names, set when the signature declares them.\<close>

definition inject :: "param list \<Rightarrow> json \<Rightarrow> (string \<times> arg) list \<Rightarrow> (string \<times> arg) list" where
  "inject sig request kwargs =
     (let kwargs1 = (if ''plugin'' \<in> fst ` set sig then AList.update ''plugin'' APlugin kwargs else kwargs)
      in if ''request'' \<in> fst ` set sig then AList.update ''request'' (AVal request) kwargs1 else kwargs1)"

text \<open>
  \<^verbatim>\<open>Plugin._dispatch\<close> (lines 73 to 94) and \<^verbatim>\<open>Plugin._init\<close> (lines 179 to 186) call
  each other. A function object is true, so \<^verbatim>\<open>if self.init\<close> asks whether a handler is
  stashed.
\<close>

function Plugin_dispatch :: "stdlib \<Rightarrow> plugin \<Rightarrow> json \<Rightarrow> json outcome"
  and Plugin_init :: "stdlib \<Rightarrow> plugin \<Rightarrow> arg \<Rightarrow> arg \<Rightarrow> arg \<Rightarrow> json outcome" where
  "Plugin_dispatch lib self request =
     (case getitem request ''method'' of
        Inl e \<Rightarrow> (self, Inl e)
      | Inr name \<Rightarrow>
     (case getitem request ''params'' of
        Inl e \<Rightarrow> (self, Inl e)
      | Inr params \<Rightarrow>
     (case lookup_method (methods self) name of
        Inl e \<Rightarrow> (self, Inl e)
      | Inr None \<Rightarrow> (self, Inl (ValueError (''No method '' @ str_format lib name @ '' found.'')))
      | Inr (Some f) \<Rightarrow>
     (case bind (signature f) (params_args params)
             (inject (signature f) request (params_kwargs params)) of
        Inl e \<Rightarrow> (self, Inl e)
      | Inr ba \<Rightarrow>
     (case f of
        Getmanifest \<Rightarrow> Plugin_getmanifest self
      | Init \<Rightarrow>
          (case map snd (apply_defaults (signature f) ba) of
             [options, configuration, req] \<Rightarrow> Plugin_init lib self options configuration req
           | _ \<Rightarrow> (self, Inl (TypeError ''_init() takes 4 positional arguments'')))
      | User h \<Rightarrow> (self, body h (apply_defaults (signature f) ba)))))))"
| "Plugin_init lib self options configuration request =
     (case init self of
        Some f \<Rightarrow>
          (case request of
             AVal r \<Rightarrow>
               Plugin_dispatch lib (self\<lparr>methods := AList.update ''init'' f (methods self), init := None\<rparr>) r
           | APlugin \<Rightarrow>
               (self\<lparr>methods := AList.update ''init'' f (methods self), init := None\<rparr>,
                Inl (TypeError (quoted ''Plugin'' @ '' object is not subscriptable''))))
      | None \<Rightarrow> (self, Inr JNull))"
  by pat_completeness auto
termination
  by (relation "measure (\<lambda>x. case x of
          Inl (lib, self, request) \<Rightarrow> (if init self = None then 1 else 3)
        | Inr (lib, self, options, configuration, request) \<Rightarrow> (if init self = None then 0 else 2))")
     auto

declare Plugin_dispatch.simps [simp del]
declare Plugin_init.simps [simp del]

section \<open>The read loop\<close>

text \<open>
  The body of the loop of \<^verbatim>\<open>Plugin._multi_dispatch\<close>, lines 115 to 134, for one
  payload. \<^verbatim>\<open>json.loads\<close> is called before the \<^verbatim>\<open>try\<close>. Inside it the dict display
  evaluates \<^verbatim>\<open>self._dispatch(request)\<close> and then \<^verbatim>\<open>request['id']\<close>; the handler of
  \<^verbatim>\<open>except Exception\<close> reads \<^verbatim>\<open>request['method']\<close> and \<^verbatim>\<open>request['id']\<close> before it
  logs, and an exception raised there propagates.
\<close>

definition send_result :: "plugin \<Rightarrow> json \<Rightarrow> plugin" where
  "send_result self result = self\<lparr>stdout := stdout self @ [Dump result, Write [nl, nl], Flush]\<rparr>"

definition on_exception :: "stdlib \<Rightarrow> plugin \<Rightarrow> json \<Rightarrow> py_exn \<Rightarrow> unit outcome" where
  "on_exception lib self request e =
     (case getitem request ''method'' of
        Inl e' \<Rightarrow> (self, Inl e')
      | Inr m \<Rightarrow>
     (case getitem request ''id'' of
        Inl e' \<Rightarrow> (self, Inl e')
      | Inr i \<Rightarrow>
          (send_result (Plugin_log self (format_exc lib e) ''info'')
             (JObj [(''jsonrpc'', JStr ''2.0''),
                    (''error'', JStr (''Error while processing '' @ str_format lib m)),
                    (''id'', i)]),
           Inr ())))"

definition dispatch_payload :: "stdlib \<Rightarrow> plugin \<Rightarrow> string \<Rightarrow> unit outcome" where
  "dispatch_payload lib self payload =
     (case json_loads lib payload of
        Inl e \<Rightarrow> (self, Inl e)
      | Inr request \<Rightarrow>
     (case Plugin_dispatch lib self request of
        (self1, Inl e) \<Rightarrow> on_exception lib self1 request e
      | (self1, Inr v) \<Rightarrow>
     (case getitem request ''id'' of
        Inl e \<Rightarrow> on_exception lib self1 request e
      | Inr i \<Rightarrow>
          (send_result self1 (JObj [(''jsonrpc'', JStr ''2.0''), (''result'', v), (''id'', i)]),
           Inr ()))))"

fun multi_dispatch_loop :: "stdlib \<Rightarrow> plugin \<Rightarrow> string list \<Rightarrow> unit outcome" where
  "multi_dispatch_loop lib self [] = (self, Inr ())"
| "multi_dispatch_loop lib self (payload # payloads) =
     (case dispatch_payload lib self payload of
        (self', Inl e) \<Rightarrow> (self', Inl e)
      | (self', Inr u) \<Rightarrow> multi_dispatch_loop lib self' payloads)"

text \<open>
  \<^verbatim>\<open>Plugin._multi_dispatch\<close>: the loop runs over \<^verbatim>\<open>msgs[:-1]\<close> and the last element is
  returned; \<^verbatim>\<open>msgs[-1]\<close> of an empty list raises.
\<close>

definition Plugin_multi_dispatch :: "stdlib \<Rightarrow> plugin \<Rightarrow> string list \<Rightarrow> string outcome" where
  "Plugin_multi_dispatch lib self msgs =
     (case multi_dispatch_loop lib self (butlast msgs) of
        (self', Inl e) \<Rightarrow> (self', Inl e)
      | (self', Inr u) \<Rightarrow>
          (if msgs = [] then (self', Inl (IndexError ''list index out of range''))
           else (self', Inr (last msgs))))"

text \<open>
  The loop of \<^verbatim>\<open>Plugin.run\<close>, lines 144 to 152, over the lines that iterating
  \<^verbatim>\<open>self.stdin\<close> yields; the end of the list is the end of the stream. It returns the
  value of \<^verbatim>\<open>partial\<close> when the stream ends.
\<close>

fun run_loop :: "stdlib \<Rightarrow> plugin \<Rightarrow> string \<Rightarrow> string list \<Rightarrow> string outcome" where
  "run_loop lib self partial [] = (self, Inr partial)"
| "run_loop lib self partial (l # ls) =
     (case str_split (partial @ l) [nl, nl] of
        Inl e \<Rightarrow> (self, Inl e)
      | Inr msgs \<Rightarrow>
          (if length msgs < 2 then run_loop lib self (partial @ l) ls
           else (case Plugin_multi_dispatch lib self msgs of
                   (self', Inl e) \<Rightarrow> (self', Inl e)
                 | (self', Inr partial') \<Rightarrow> run_loop lib self' partial' ls)))"

text \<open>Lines 140 to 142: the handler registered as \<^verbatim>\<open>init\<close> is stashed.\<close>

definition stash_init :: "plugin \<Rightarrow> plugin" where
  "stash_init self =
     (case map_of (methods self) ''init'' of
        Some f \<Rightarrow> self\<lparr>init := Some f, methods := AList.update ''init'' Init (methods self)\<rparr>
      | None \<Rightarrow> self)"

definition Plugin_run :: "stdlib \<Rightarrow> plugin \<Rightarrow> string list \<Rightarrow> unit outcome" where
  "Plugin_run lib self stdin =
     (case run_loop lib (stash_init self) [] stdin of
        (self', Inl e) \<Rightarrow> (self', Inl e)
      | (self', Inr partial) \<Rightarrow> (self', Inr ()))"

text \<open>
  Iterating a text stream yields its lines, each with its newline, and a last line
  without one if the stream does not end in a newline.
\<close>

fun lines_from :: "string \<Rightarrow> string \<Rightarrow> string list" where
  "lines_from acc [] = (if acc = [] then [] else [rev acc])"
| "lines_from acc (c # cs) =
     (if c = nl then rev (c # acc) # lines_from [] cs else lines_from (c # acc) cs)"

definition readlines :: "string \<Rightarrow> string list" where
  "readlines s = lines_from [] s"

section \<open>The stream that turns writes into log notifications\<close>

text \<open>
  \<^verbatim>\<open>PluginStream\<close>, lines 189 to 213. The stream holds a reference to the plugin; here
  the plugin is passed in and returned beside the stream.
\<close>

record plugin_stream =
  level :: string
  buff :: string

definition PluginStream_new :: "string \<Rightarrow> plugin_stream" where
  "PluginStream_new lvl = \<lparr>level = lvl, buff = []\<rparr>"

fun log_lines :: "plugin \<Rightarrow> string \<Rightarrow> string list \<Rightarrow> plugin" where
  "log_lines p lvl [] = p"
| "log_lines p lvl (l # ls) = log_lines (Plugin_log p l lvl) lvl ls"

definition PluginStream_flush :: "plugin \<Rightarrow> plugin_stream \<Rightarrow> (plugin \<times> plugin_stream) \<times> (py_exn + unit)" where
  "PluginStream_flush p self =
     (case str_split (buff self) [nl] of
        Inl e \<Rightarrow> ((p, self), Inl e)
      | Inr lines \<Rightarrow>
          (if length lines < 2 then ((p, self), Inr ())
           else ((log_lines p (level self) (butlast lines), self\<lparr>buff := last lines\<rparr>), Inr ())))"

definition PluginStream_write ::
  "plugin \<Rightarrow> plugin_stream \<Rightarrow> string \<Rightarrow> (plugin \<times> plugin_stream) \<times> (py_exn + unit)" where
  "PluginStream_write p self payload =
     (let self1 = self\<lparr>buff := buff self @ payload\<rparr>
      in if payload = [] then ((p, self1), Inl (IndexError ''string index out of range''))
         else if last payload = nl then PluginStream_flush p self1
         else ((p, self1), Inr ()))"

section \<open>A concrete library for running the model\<close>

text \<open>
  To run the model on concrete input the three library calls need an implementation.
  \<open>loads\<close> decodes the JSON documents that the model has values for: objects, arrays,
  strings with the one-letter escapes, integers and the three literals. A document that
  needs a float or a \<^verbatim>\<open>\u\<close> escape is rejected here although Python decodes it; the
  general theorems below hold for every decoder and do not depend on this one.
\<close>

datatype token =
    TLBrace | TRBrace | TLBrack | TRBrack | TColon | TComma
  | TString string | TInt int | TTrue | TFalse | TNull

datatype lexmode = Idle | InStr string | Esc string | Num string | Word string

definition is_digit :: "char \<Rightarrow> bool" where
  "is_digit c = (c \<in> set ''0123456789'')"

definition is_space :: "char \<Rightarrow> bool" where
  "is_space c = (c \<in> set [CHR 0x20, CHR 0x09, CHR 0x0A, CHR 0x0D])"

definition is_letter :: "char \<Rightarrow> bool" where
  "is_letter c = (c \<in> set ''abcdefghijklmnopqrstuvwxyzABCDEFGHIJKLMNOPQRSTUVWXYZ'')"

definition digit_value :: "char \<Rightarrow> nat" where
  "digit_value c = of_char c - 48"

fun digits_value :: "string \<Rightarrow> nat option" where
  "digits_value [] = None"
| "digits_value [c] = Some (digit_value c)"
| "digits_value (c # d # ds) =
     (if c = CHR ''0'' then None
      else Some (foldl (\<lambda>n x. 10 * n + digit_value x) 0 (c # d # ds)))"

fun number_token :: "string \<Rightarrow> token option" where
  "number_token [] = None"
| "number_token (c # cs) =
     (if c = CHR ''-'' then map_option (\<lambda>n. TInt (- int n)) (digits_value cs)
      else map_option (\<lambda>n. TInt (int n)) (digits_value (c # cs)))"

definition word_token :: "string \<Rightarrow> token option" where
  "word_token w =
     (if w = ''true'' then Some TTrue
      else if w = ''false'' then Some TFalse
      else if w = ''null'' then Some TNull
      else None)"

definition punctuation :: "char \<Rightarrow> token option" where
  "punctuation c =
     (if c = CHR 0x7B then Some TLBrace
      else if c = CHR 0x7D then Some TRBrace
      else if c = CHR 0x5B then Some TLBrack
      else if c = CHR 0x5D then Some TRBrack
      else if c = CHR 0x3A then Some TColon
      else if c = CHR 0x2C then Some TComma
      else None)"

definition unescape :: "char \<Rightarrow> char option" where
  "unescape c =
     (if c = CHR 0x22 \<or> c = CHR 0x5C \<or> c = CHR 0x2F then Some c
      else if c = CHR ''b'' then Some (CHR 0x08)
      else if c = CHR ''f'' then Some (CHR 0x0C)
      else if c = CHR ''n'' then Some (CHR 0x0A)
      else if c = CHR ''r'' then Some (CHR 0x0D)
      else if c = CHR ''t'' then Some (CHR 0x09)
      else None)"

definition cons_token :: "token option \<Rightarrow> token list option \<Rightarrow> token list option" where
  "cons_token t ts = (case t of None \<Rightarrow> None | Some x \<Rightarrow> map_option ((#) x) ts)"

text \<open>
  The scanner reads one character at a time; the mode holds the text of the string,
  number or word being read, reversed. A character that ends a number or a word is read
  again in mode \<open>Idle\<close>.
\<close>

function lex :: "lexmode \<Rightarrow> string \<Rightarrow> token list option" where
  "lex Idle [] = Some []"
| "lex (InStr acc) [] = None"
| "lex (Esc acc) [] = None"
| "lex (Num acc) [] = cons_token (number_token (rev acc)) (Some [])"
| "lex (Word acc) [] = cons_token (word_token (rev acc)) (Some [])"
| "lex Idle (c # cs) =
     (if is_space c then lex Idle cs
      else if c = CHR 0x22 then lex (InStr []) cs
      else if is_digit c \<or> c = CHR ''-'' then lex (Num [c]) cs
      else if is_letter c then lex (Word [c]) cs
      else cons_token (punctuation c) (lex Idle cs))"
| "lex (InStr acc) (c # cs) =
     (if c = CHR 0x22 then cons_token (Some (TString (rev acc))) (lex Idle cs)
      else if c = CHR 0x5C then lex (Esc acc) cs
      else if (of_char c :: nat) < 32 then None
      else lex (InStr (c # acc)) cs)"
| "lex (Esc acc) (c # cs) =
     (case unescape c of None \<Rightarrow> None | Some x \<Rightarrow> lex (InStr (x # acc)) cs)"
| "lex (Num acc) (c # cs) =
     (if is_digit c then lex (Num (c # acc)) cs
      else if c = CHR ''.'' \<or> c = CHR ''e'' \<or> c = CHR ''E'' then None
      else cons_token (number_token (rev acc)) (lex Idle (c # cs)))"
| "lex (Word acc) (c # cs) =
     (if is_letter c then lex (Word (c # acc)) cs
      else cons_token (word_token (rev acc)) (lex Idle (c # cs)))"
  by pat_completeness auto
termination
  by (relation "measure (\<lambda>(m, s). 2 * length s + (case m of Idle \<Rightarrow> 0 | _ \<Rightarrow> 1))") auto

text \<open>
  The parser reads one token at a time. The stack holds the containers that are open:
  an array with its elements so far (reversed), an object with its members so far, or
  an object with a key that waits for its value. A dict built from repeated keys keeps
  the last value.
\<close>

datatype frame =
    FArr "json list"
  | FObj "(string \<times> json) list"
  | FKey "(string \<times> json) list" string

datatype expect = XValue | XFirst | XKeyOrEnd | XKey | XColon | XNext | XDone json

fun put_value :: "json \<Rightarrow> frame list \<Rightarrow> (expect \<times> frame list) option" where
  "put_value v [] = Some (XDone v, [])"
| "put_value v (FArr xs # fs) = Some (XNext, FArr (v # xs) # fs)"
| "put_value v (FKey kvs k # fs) = Some (XNext, FObj (AList.update k v kvs) # fs)"
| "put_value v (FObj kvs # fs) = None"

fun start_value :: "token \<Rightarrow> frame list \<Rightarrow> (expect \<times> frame list) option" where
  "start_value TLBrack fs = Some (XFirst, FArr [] # fs)"
| "start_value TLBrace fs = Some (XKeyOrEnd, FObj [] # fs)"
| "start_value (TString s) fs = put_value (JStr s) fs"
| "start_value (TInt i) fs = put_value (JInt i) fs"
| "start_value TTrue fs = put_value (JBool True) fs"
| "start_value TFalse fs = put_value (JBool False) fs"
| "start_value TNull fs = put_value JNull fs"
| "start_value t fs = None"

fun close_array :: "frame list \<Rightarrow> (expect \<times> frame list) option" where
  "close_array (FArr xs # fs) = put_value (JArr (rev xs)) fs"
| "close_array fs = None"

fun close_object :: "frame list \<Rightarrow> (expect \<times> frame list) option" where
  "close_object (FObj kvs # fs) = put_value (JObj kvs) fs"
| "close_object fs = None"

fun open_key :: "string \<Rightarrow> frame list \<Rightarrow> (expect \<times> frame list) option" where
  "open_key k (FObj kvs # fs) = Some (XColon, FKey kvs k # fs)"
| "open_key k fs = None"

fun next_item :: "frame list \<Rightarrow> (expect \<times> frame list) option" where
  "next_item (FArr xs # fs) = Some (XValue, FArr xs # fs)"
| "next_item (FObj kvs # fs) = Some (XKey, FObj kvs # fs)"
| "next_item fs = None"

fun parse_step :: "expect \<Rightarrow> frame list \<Rightarrow> token \<Rightarrow> (expect \<times> frame list) option" where
  "parse_step XValue fs t = start_value t fs"
| "parse_step XFirst fs t = (if t = TRBrack then close_array fs else start_value t fs)"
| "parse_step XKeyOrEnd fs t =
     (case t of TRBrace \<Rightarrow> close_object fs | TString k \<Rightarrow> open_key k fs | _ \<Rightarrow> None)"
| "parse_step XKey fs t = (case t of TString k \<Rightarrow> open_key k fs | _ \<Rightarrow> None)"
| "parse_step XColon fs t = (case t of TColon \<Rightarrow> Some (XValue, fs) | _ \<Rightarrow> None)"
| "parse_step XNext fs t =
     (case t of
        TComma \<Rightarrow> next_item fs
      | TRBrack \<Rightarrow> close_array fs
      | TRBrace \<Rightarrow> close_object fs
      | _ \<Rightarrow> None)"
| "parse_step (XDone v) fs t = None"

fun parse :: "expect \<Rightarrow> frame list \<Rightarrow> token list \<Rightarrow> json option" where
  "parse (XDone v) [] [] = Some v"
| "parse x fs [] = None"
| "parse x fs (t # ts) =
     (case parse_step x fs t of None \<Rightarrow> None | Some (x', fs') \<Rightarrow> parse x' fs' ts)"

definition loads :: "string \<Rightarrow> py_exn + json" where
  "loads s =
     (case lex Idle s of
        None \<Rightarrow> Inl JSONDecodeError
      | Some ts \<Rightarrow> (case parse XValue [] ts of None \<Rightarrow> Inl JSONDecodeError | Some v \<Rightarrow> Inr v))"

text \<open>The decimal text of an integer.\<close>

fun show_nat :: "nat \<Rightarrow> string" where
  "show_nat n =
     (if n < 10 then [char_of (48 + n)] else show_nat (n div 10) @ [char_of (48 + n mod 10)])"

definition show_int :: "int \<Rightarrow> string" where
  "show_int i = (if i < 0 then CHR ''-'' # show_nat (nat (- i)) else show_nat (nat i))"

text \<open>
  \<^verbatim>\<open>'{}'.format(x)\<close>: a string is printed as it is. The text of a list or a dict is not
  modelled.
\<close>

fun str :: "json \<Rightarrow> string" where
  "str (JStr s) = s"
| "str JNull = ''None''"
| "str (JBool b) = (if b then ''True'' else ''False'')"
| "str (JInt i) = show_int i"
| "str (JArr xs) = ''[...]''"
| "str (JObj kvs) = ''{...}''"

text \<open>
  The last line of a traceback names the exception and its message. The lines before
  it, one pair for each stack frame with the path of the file, are left out of
  \<open>traceback_text\<close>.
\<close>

fun format_exception_only :: "py_exn \<Rightarrow> string" where
  "format_exception_only (ValueError m) = ''ValueError: '' @ m @ [nl]"
| "format_exception_only (KeyError k) = ''KeyError: '' @ quoted k @ [nl]"
| "format_exception_only (TypeError m) = ''TypeError: '' @ m @ [nl]"
| "format_exception_only (IndexError m) = ''IndexError: '' @ m @ [nl]"
| "format_exception_only JSONDecodeError = ''json.decoder.JSONDecodeError'' @ [nl]"
| "format_exception_only (HandlerError c m) = c @ '': '' @ m @ [nl]"

definition traceback_text :: "py_exn \<Rightarrow> string" where
  "traceback_text e = ''Traceback (most recent call last):'' @ [nl] @ format_exception_only e"

definition python :: stdlib where
  "python = \<lparr>json_loads = loads, format_exc = traceback_text, str_format = str\<rparr>"

section \<open>Notions used in the statements\<close>

text \<open>
  The call \<^verbatim>\<open>func(*ba.args, **ba.kwargs)\<close> that ends \<^verbatim>\<open>_dispatch\<close>, on its own: what the
  callable \<open>f\<close> does with the bound arguments.
\<close>

definition call :: "stdlib \<Rightarrow> plugin \<Rightarrow> func \<Rightarrow> (string \<times> arg) list \<Rightarrow> json outcome" where
  "call lib self f args =
     (case f of
        Getmanifest \<Rightarrow> Plugin_getmanifest self
      | Init \<Rightarrow>
          (case map snd args of
             [options, configuration, req] \<Rightarrow> Plugin_init lib self options configuration req
           | _ \<Rightarrow> (self, Inl (TypeError ''_init() takes 4 positional arguments'')))
      | User h \<Rightarrow> (self, body h args))"

text \<open>The error response for a method and a request id.\<close>

definition error_response :: "stdlib \<Rightarrow> json \<Rightarrow> json \<Rightarrow> json" where
  "error_response lib m i =
     JObj [(''jsonrpc'', JStr ''2.0''),
           (''error'', JStr (''Error while processing '' @ str_format lib m)),
           (''id'', i)]"

text \<open>
  The ids of the responses on the output stream, in the order in which they were
  written: a response is a dumped object with an \<^verbatim>\<open>id\<close>, which a notification lacks.
\<close>

fun response_ids :: "out_event list \<Rightarrow> json list" where
  "response_ids [] = []"
| "response_ids (Dump (JObj kvs) # evs) =
     (case map_of kvs ''id'' of Some i \<Rightarrow> i # response_ids evs | None \<Rightarrow> response_ids evs)"
| "response_ids (ev # evs) = response_ids evs"

text \<open>
  The id of a payload that decodes to a request which can be answered: a dict with the
  keys \<^verbatim>\<open>method\<close> and \<^verbatim>\<open>id\<close>.
\<close>

definition request_id :: "stdlib \<Rightarrow> string \<Rightarrow> json option" where
  "request_id lib payload =
     (case json_loads lib payload of
        Inr (JObj kvs) \<Rightarrow> (case map_of kvs ''method'' of None \<Rightarrow> None | Some m \<Rightarrow> map_of kvs ''id'')
      | _ \<Rightarrow> None)"

text \<open>The entry of the manifest for a registered method, and the names a manifest lists.\<close>

definition description :: "func \<Rightarrow> string" where
  "description f =
     (case func_doc f of
        Some (c # cs) \<Rightarrow> c # cs
      | _ \<Rightarrow> ''Undocumented RPC method from a plugin.'')"

definition rpcmethod :: "string \<times> func \<Rightarrow> json" where
  "rpcmethod m = JObj [(''name'', JStr (fst m)), (''description'', JStr (description (snd m)))]"

definition reported :: "string \<times> func \<Rightarrow> bool" where
  "reported m = (fst m \<noteq> ''getmanifest'' \<and> fst m \<noteq> ''init'')"

fun entry_names :: "json list \<Rightarrow> string list" where
  "entry_names [] = []"
| "entry_names (JObj kvs # es) =
     (case map_of kvs ''name'' of Some (JStr n) \<Rightarrow> n # entry_names es | _ \<Rightarrow> entry_names es)"
| "entry_names (e # es) = entry_names es"

definition listed_names :: "json \<Rightarrow> string list" where
  "listed_names manifest =
     (case getitem manifest ''rpcmethods'' of Inr (JArr es) \<Rightarrow> entry_names es | _ \<Rightarrow> [])"

text \<open>The manifest that the specification describes for a plugin.\<close>

definition manifest_of :: "plugin \<Rightarrow> json" where
  "manifest_of self =
     JObj [(''options'', JArr []),
           (''rpcmethods'', JArr (map rpcmethod (filter reported (methods self))))]"

text \<open>
  Sample handlers for the concrete runs.
  \<^verbatim>\<open>def echo(x, plugin=None): """Return the argument.""" return x\<close>
\<close>

definition echo :: handler where
  "echo = \<lparr>parameters = [(''x'', None), (''plugin'', Some (AVal JNull))],
           getdoc = Some ''Return the argument.'',
           body = (\<lambda>args. case map_of args ''x'' of
                     Some (AVal v) \<Rightarrow> Inr v
                   | _ \<Rightarrow> Inl (TypeError ''Object of type Plugin is not JSON serializable''))\<rparr>"

text \<open>
  \<^verbatim>\<open>def whoami(plugin=None): return "the plugin" if isinstance(plugin, Plugin) else plugin\<close>
\<close>

definition whoami :: handler where
  "whoami = \<lparr>parameters = [(''plugin'', Some (AVal JNull))],
             getdoc = None,
             body = (\<lambda>args. case map_of args ''plugin'' of
                       Some (AVal v) \<Rightarrow> Inr v
                     | Some APlugin \<Rightarrow> Inr (JStr ''the plugin'')
                     | None \<Rightarrow> Inr JNull)\<rparr>"

text \<open>
  \<^verbatim>\<open>def init(options, configuration, plugin): return "ready"\<close>
\<close>

definition user_init :: handler where
  "user_init = \<lparr>parameters = [(''options'', None), (''configuration'', None), (''plugin'', None)],
                getdoc = None,
                body = (\<lambda>args. Inr (JStr ''ready''))\<rparr>"

text \<open>
  A plugin with \<^verbatim>\<open>echo\<close> and \<^verbatim>\<open>whoami\<close> registered, and one with a user handler for
  \<^verbatim>\<open>init\<close>.
\<close>

definition sample_plugin :: plugin where
  "sample_plugin =
     fst (Plugin_add_method (fst (Plugin_add_method Plugin_new ''echo'' (User echo)))
            ''whoami'' (User whoami))"

definition init_plugin :: plugin where
  "init_plugin = fst (Plugin_add_method Plugin_new ''init'' (User user_init))"

text \<open>
  Two input streams: two requests followed by the beginning of a third message, and a
  text that is not JSON followed by a request.
\<close>

definition example_stream :: string where
  \<open>example_stream =
     ''{"method":"getmanifest","params":{},"id":1}'' @ [nl, nl] @
     ''{"method":"nope","params":[],"id":2}'' @ [nl, nl] @ ''PARTIAL''\<close>

definition bad_stream :: string where
  \<open>bad_stream =
     ''not json'' @ [nl, nl] @ ''{"method":"getmanifest","params":{},"id":1}'' @ [nl, nl] @ ''PARTIAL''\<close>

section \<open>Facts about the sample plugins\<close>

lemma Plugin_new_eq:
  "Plugin_new = \<lparr>methods = [(''getmanifest'', Getmanifest)], init = None, stdout = []\<rparr>"
  by (simp add: Plugin_new_def Plugin_add_method_def)

lemma sample_plugin_eq:
  "sample_plugin =
     \<lparr>methods = [(''getmanifest'', Getmanifest), (''echo'', User echo), (''whoami'', User whoami)],
      init = None, stdout = []\<rparr>"
  by (simp add: sample_plugin_def Plugin_new_eq Plugin_add_method_def)

lemma init_plugin_eq:
  "init_plugin =
     \<lparr>methods = [(''getmanifest'', Getmanifest), (''init'', User user_init)],
      init = None, stdout = []\<rparr>"
  by (simp add: init_plugin_def Plugin_new_eq Plugin_add_method_def)

lemma python_simps:
  "json_loads python = loads" "format_exc python = traceback_text" "str_format python = str"
  by (simp_all add: python_def)

section \<open>Binding keeps what is passed by name\<close>

lemma bind_positional_names:
  "bind_positional ps as kw = Inr (bound, rest) \<Longrightarrow>
     fst ` set bound \<inter> fst ` set kw = {} \<and> fst ` set ps = fst ` set bound \<union> fst ` set rest"
proof (induction ps as kw arbitrary: bound rest rule: bind_positional.induct)
  case (1 ps kwargs)
  then show ?case by auto
next
  case (2 a as kwargs)
  then show ?case by simp
next
  case (3 p ps a as kwargs)
  from "3.prems" have fresh: "fst p \<notin> fst ` set kwargs"
    by (simp split: if_splits)
  from "3.prems" fresh obtain bound' where
    rec: "bind_positional ps as kwargs = Inr (bound', rest)" and b: "bound = (fst p, a) # bound'"
    by (auto split: sum.splits)
  from "3.IH" [OF fresh rec] fresh b show ?case by auto
qed

lemma bind_keywords_value:
  "bind_keywords ps kw = Inr (named, left) \<Longrightarrow> k \<in> fst ` set ps \<Longrightarrow> map_of kw k = Some v \<Longrightarrow>
     map_of named k = Some v"
proof (induction ps arbitrary: kw named left)
  case Nil
  then show ?case by simp
next
  case (Cons p ps)
  show ?case
  proof (cases "map_of kw (fst p)")
    case None
    with Cons.prems obtain d where "snd p = Some d" and rec: "bind_keywords ps kw = Inr (named, left)"
      by (auto split: option.splits)
    from None Cons.prems(3) have "k \<noteq> fst p" by auto
    with Cons.prems(2) have "k \<in> fst ` set ps" by auto
    from Cons.IH [OF rec this Cons.prems(3)] show ?thesis .
  next
    case (Some w)
    with Cons.prems(1) obtain named' where
      rec: "bind_keywords ps (AList.delete (fst p) kw) = Inr (named', left)"
      and n: "named = (fst p, w) # named'"
      by (auto split: sum.splits)
    show ?thesis
    proof (cases "k = fst p")
      case True
      with Some Cons.prems(3) n show ?thesis by simp
    next
      case False
      with Cons.prems(2) have "k \<in> fst ` set ps" by auto
      moreover from False Cons.prems(3) have "map_of (AList.delete (fst p) kw) k = Some v"
        by (simp add: delete_conv')
      ultimately have "map_of named' k = Some v" using Cons.IH [OF rec] by blast
      with False n show ?thesis by simp
    qed
  qed
qed

lemma bind_keeps_keyword:
  assumes "bind sig as kw = Inr ba" and "k \<in> fst ` set sig" and "map_of kw k = Some v"
  shows "map_of ba k = Some v"
proof -
  from assms(1) obtain bound rest named left where
    pos: "bind_positional sig as kw = Inr (bound, rest)"
    and key: "bind_keywords rest kw = Inr (named, left)"
    and ba: "ba = bound @ named"
    by (auto simp: bind_def split: sum.splits list.splits prod.splits)
  from assms(3) have "k \<in> fst ` set kw"
    by (metis domI dom_map_of_conv_image_fst)
  with bind_positional_names [OF pos] assms(2) have "k \<notin> fst ` set bound" and "k \<in> fst ` set rest"
    by auto
  then have "map_of bound k = None" and "map_of named k = Some v"
    using bind_keywords_value [OF key _ assms(3)] by (simp_all add: map_of_eq_None_iff)
  with ba show ?thesis by (simp add: map_add_def)
qed

lemma apply_defaults_bound:
  "k \<in> fst ` set sig \<Longrightarrow> map_of ba k = Some v \<Longrightarrow> map_of (apply_defaults sig ba) k = Some v"
  by (induction sig) (auto split: option.splits)

lemma inject_plugin:
  "''plugin'' \<in> fst ` set sig \<Longrightarrow> map_of (inject sig request kw) ''plugin'' = Some APlugin"
  by (simp add: inject_def Let_def update_conv')

lemma inject_request:
  "''request'' \<in> fst ` set sig \<Longrightarrow> map_of (inject sig request kw) ''request'' = Some (AVal request)"
  by (simp add: inject_def Let_def update_conv')

lemma inject_undeclared:
  "k \<notin> fst ` set sig \<Longrightarrow> map_of (inject sig request kw) k = map_of kw k"
  by (auto simp add: inject_def Let_def update_conv')

section \<open>Dispatch of a well-formed request\<close>


lemma dispatch_unknown:
  assumes "map_of kvs ''method'' = Some (JStr name)"
      and "map_of kvs ''params'' = Some params"
      and "map_of (methods self) name = None"
  shows "Plugin_dispatch lib self (JObj kvs) =
           (self, Inl (ValueError (''No method '' @ str_format lib (JStr name) @ '' found.'')))"
  using assms by (simp add: Plugin_dispatch.simps)

lemma on_exception_no_id:
  assumes "map_of kvs ''id'' = None"
  shows "on_exception lib s (JObj kvs) e =
           (s, Inl (KeyError (if map_of kvs ''method'' = None then ''method'' else ''id'')))"
  using assms by (simp add: on_exception_def split: option.splits)

section \<open>The responses on the output stream\<close>

lemma response_ids_append: "response_ids (xs @ ys) = response_ids xs @ response_ids ys"
  by (induction xs rule: response_ids.induct) (simp_all split: option.splits)

lemma response_ids_log: "response_ids (stdout (Plugin_log p m l)) = response_ids (stdout p)"
  by (simp add: Plugin_log_def Plugin_notify_def response_ids_append)

lemma response_ids_getmanifest_loop:
  "response_ids (stdout (fst (getmanifest_loop self items ms))) = response_ids (stdout self)"
proof (induction items arbitrary: self ms)
  case Nil
  show ?case by simp
next
  case (Cons item items)
  obtain name f where item: "item = (name, f)" by (cases item)
  show ?case
    by (simp add: item Cons.IH response_ids_log split: option.splits list.splits)
qed

lemma response_ids_getmanifest:
  "response_ids (stdout (fst (Plugin_getmanifest self))) = response_ids (stdout self)"
proof -
  obtain self' ms where loop: "getmanifest_loop self (methods self) [] = (self', ms)"
    by (cases "getmanifest_loop self (methods self) []")
  with response_ids_getmanifest_loop [of self "methods self" "[]"] show ?thesis
    by (simp add: Plugin_getmanifest_def)
qed

text \<open>Neither \<^verbatim>\<open>_dispatch\<close> nor \<^verbatim>\<open>_init\<close> writes a response: they only log.\<close>

lemma response_ids_dispatch:
  "response_ids (stdout (fst (Plugin_dispatch lib self request))) = response_ids (stdout self)"
  "response_ids (stdout (fst (Plugin_init lib self a b c))) = response_ids (stdout self)"
proof (induction lib self request and lib self a b c rule: Plugin_dispatch_Plugin_init.induct)
  case (1 lib self request)
  show ?case
    by (subst Plugin_dispatch.simps)
       (auto simp: response_ids_getmanifest "1.IH"
          split: sum.splits option.splits func.splits list.splits)
next
  case (2 lib self options configuration request)
  show ?case
    by (subst Plugin_init.simps) (auto simp: "2.IH" split: option.splits arg.splits)
qed

text \<open>A payload that can be answered gets one response, with its id, and the loop goes on.\<close>

lemma dispatch_payload_answers:
  assumes "request_id lib payload = Some i"
  shows "snd (dispatch_payload lib self payload) = Inr () \<and>
         response_ids (stdout (fst (dispatch_payload lib self payload))) =
           response_ids (stdout self) @ [i]"
proof -
  from assms obtain kvs m where
    req: "json_loads lib payload = Inr (JObj kvs)" "map_of kvs ''method'' = Some m"
         "map_of kvs ''id'' = Some i"
    by (auto simp: request_id_def split: sum.splits json.splits option.splits)
  obtain s r where d: "Plugin_dispatch lib self (JObj kvs) = (s, r)"
    by (cases "Plugin_dispatch lib self (JObj kvs)")
  have s: "response_ids (stdout s) = response_ids (stdout self)"
    using response_ids_dispatch(1) [of lib self "JObj kvs"] d by simp
  show ?thesis
    using req d s
    by (cases r)
       (simp_all add: dispatch_payload_def on_exception_def send_result_def
          response_ids_append response_ids_log)
qed

lemma multi_dispatch_loop_append:
  "multi_dispatch_loop lib self (ps @ qs) =
     (case multi_dispatch_loop lib self ps of
        (self', Inl e) \<Rightarrow> (self', Inl e)
      | (self', Inr u) \<Rightarrow> multi_dispatch_loop lib self' qs)"
  by (induction ps arbitrary: self) (auto split: prod.splits sum.splits)

lemma multi_dispatch_loop_answers:
  assumes "\<forall>p \<in> set ps. request_id lib p \<noteq> None"
  shows "snd (multi_dispatch_loop lib self ps) = Inr () \<and>
         response_ids (stdout (fst (multi_dispatch_loop lib self ps))) =
           response_ids (stdout self) @ map (\<lambda>p. the (request_id lib p)) ps"
  using assms
proof (induction ps arbitrary: self)
  case Nil
  show ?case by simp
next
  case (Cons p ps)
  from Cons.prems obtain i where i: "request_id lib p = Some i" by auto
  obtain s1 where s1: "dispatch_payload lib self p = (s1, Inr ())"
    using dispatch_payload_answers [OF i, of self]
    by (cases "dispatch_payload lib self p") auto
  have ids: "response_ids (stdout s1) = response_ids (stdout self) @ [i]"
    using dispatch_payload_answers [OF i, of self] s1 by simp
  from Cons.prems have "\<forall>q \<in> set ps. request_id lib q \<noteq> None" by simp
  from Cons.IH [OF this, of s1] s1 ids i show ?case by simp
qed

section \<open>The manifest lists the registered methods\<close>

lemma getmanifest_loop_entries:
  "snd (getmanifest_loop self items ms) = ms @ map rpcmethod (filter reported items)"
proof (induction items arbitrary: self ms)
  case Nil
  show ?case by simp
next
  case (Cons item items)
  obtain name f where item: "item = (name, f)" by (cases item)
  show ?case
    by (simp add: item Cons.IH reported_def rpcmethod_def description_def
        split: option.splits list.splits)
qed

lemma entry_names_rpcmethod: "entry_names (map rpcmethod ms) = map fst ms"
  by (induction ms) (simp_all add: rpcmethod_def)

section \<open>The claims\<close>

subsection \<open>Framing\<close>

text \<open>
  C1, as the claim states it, fails: a complete segment is decoded before the
  \<^verbatim>\<open>try\<close> of line 117, so a segment that is not JSON ends \<^verbatim>\<open>run\<close> with the decoder's
  exception. On \<open>bad_stream\<close> the buffer splits into two segments when the second line
  arrives; nothing is written, the request that follows is never dispatched and no
  remainder is retained.
\<close>

theorem run_loop_raises_on_undecodable_segment:
  "snd (run_loop python Plugin_new [] (readlines bad_stream)) = Inl JSONDecodeError \<and>
   stdout (fst (run_loop python Plugin_new [] (readlines bad_stream))) = []"
  by code_simp

text \<open>
  C1, amended. Whenever the accumulated buffer splits into two or more segments and
  every segment but the last decodes to a request that carries \<^verbatim>\<open>method\<close> and \<^verbatim>\<open>id\<close>,
  the loop answers every segment but the last, in arrival order (the ids of the
  responses written are the ids of those segments, in that order), and goes on reading
  with the last segment as the partial buffer.
\<close>

theorem run_loop_dispatches_segments_in_order:
  assumes "str_split (partial @ l) [nl, nl] = Inr msgs"
      and "2 \<le> length msgs"
      and "\<forall>p \<in> set (butlast msgs). request_id lib p \<noteq> None"
  shows "run_loop lib self partial (l # ls) =
           run_loop lib (fst (Plugin_multi_dispatch lib self msgs)) (last msgs) ls \<and>
         response_ids (stdout (fst (Plugin_multi_dispatch lib self msgs))) =
           response_ids (stdout self) @ map (\<lambda>p. the (request_id lib p)) (butlast msgs)"
proof -
  obtain s where s: "multi_dispatch_loop lib self (butlast msgs) = (s, Inr ())"
    using multi_dispatch_loop_answers [OF assms(3), of self]
    by (cases "multi_dispatch_loop lib self (butlast msgs)") auto
  have ids: "response_ids (stdout s) =
               response_ids (stdout self) @ map (\<lambda>p. the (request_id lib p)) (butlast msgs)"
    using multi_dispatch_loop_answers [OF assms(3), of self] s by simp
  from assms(2) have "msgs \<noteq> []" by auto
  with s have m: "Plugin_multi_dispatch lib self msgs = (s, Inr (last msgs))"
    by (simp add: Plugin_multi_dispatch_def)
  with assms(1,2) have "run_loop lib self partial (l # ls) = run_loop lib s (last msgs) ls"
    by simp
  with ids m show ?thesis by simp
qed

theorem run_loop_dispatches_segments_in_order_witness:
  \<open>snd (run_loop python Plugin_new [] [example_stream]) = Inr ''PARTIAL'' \<and>
   response_ids (stdout (fst (run_loop python Plugin_new [] [example_stream]))) = [JInt 1, JInt 2] \<and>
   snd (run_loop python Plugin_new [] (readlines example_stream)) = Inr ''PARTIAL'' \<and>
   response_ids (stdout (fst (run_loop python Plugin_new [] (readlines example_stream)))) =
     [JInt 1, JInt 2]\<close>
proof -
  let ?m1 = \<open>''{"method":"getmanifest","params":{},"id":1}''\<close>
  let ?m2 = \<open>''{"method":"nope","params":[],"id":2}''\<close>
  have segments: "str_split ([] @ example_stream) [nl, nl] = Inr [?m1, ?m2, ''PARTIAL'']"
    by code_simp
  have r1: "request_id python ?m1 = Some (JInt 1)"
    by code_simp
  have r2: "request_id python ?m2 = Some (JInt 2)"
    by code_simp
  have two: "2 \<le> length [?m1, ?m2, ''PARTIAL'']"
    by simp
  have answerable: "\<forall>p \<in> set (butlast [?m1, ?m2, ''PARTIAL'']). request_id python p \<noteq> None"
    using r1 r2 by simp
  have chunk: "snd (run_loop python Plugin_new [] [example_stream]) = Inr ''PARTIAL'' \<and>
      response_ids (stdout (fst (run_loop python Plugin_new [] [example_stream]))) = [JInt 1, JInt 2]"
    using run_loop_dispatches_segments_in_order [OF segments two answerable, of Plugin_new "[]"] r1 r2
    by (simp add: Plugin_new_eq)
  have lines: "snd (run_loop python Plugin_new [] (readlines example_stream)) = Inr ''PARTIAL'' \<and>
      response_ids (stdout (fst (run_loop python Plugin_new [] (readlines example_stream)))) =
        [JInt 1, JInt 2]"
    by code_simp
  from chunk lines show ?thesis by simp
qed

subsection \<open>Errors of one message\<close>

text \<open>
  C2, as the claim states it, fails for a message that cannot be decoded:
  \<^verbatim>\<open>json.loads\<close> is outside the \<^verbatim>\<open>try\<close>, so its exception leaves \<^verbatim>\<open>_multi_dispatch\<close>.
  No error response and no log notification is written, and the request that follows
  in the same buffer is not reached.
\<close>

theorem undecodable_message_is_not_isolated:
  \<open>snd (Plugin_multi_dispatch python Plugin_new
          [''{'', ''{"method":"getmanifest","params":{},"id":1}'', '''']) = Inl JSONDecodeError \<and>
   stdout (fst (Plugin_multi_dispatch python Plugin_new
          [''{'', ''{"method":"getmanifest","params":{},"id":1}'', ''''])) = []\<close>
  by code_simp

text \<open>
  C2, amended. For every complete message that decodes to a request carrying
  \<^verbatim>\<open>method\<close> and \<^verbatim>\<open>id\<close> and whose dispatch raises an exception of class
  \<^verbatim>\<open>Exception\<close> (the exceptions of the model, those that line 123 catches), the loop
  writes to the output stream, after what the dispatch has written, first the log
  notification with the traceback and then the error response that names the method
  and carries the id of the message, each followed by the delimiter and a flush; the
  loop body returns normally and the loop goes on with the next message.
\<close>

theorem failed_dispatch_is_answered_and_logged:
  assumes "json_loads lib payload = Inr (JObj kvs)"
      and "map_of kvs ''method'' = Some m"
      and "map_of kvs ''id'' = Some i"
      and "Plugin_dispatch lib self (JObj kvs) = (self1, Inl e)"
  shows "dispatch_payload lib self payload =
           (self1\<lparr>stdout := stdout self1 @
              [Dump (JObj [(''jsonrpc'', JStr ''2.0''), (''method'', JStr ''log''),
                           (''params'', JObj [(''level'', JStr ''info''),
                                              (''message'', JStr (format_exc lib e))])]),
               Write [nl, nl],
               Flush,
               Dump (JObj [(''jsonrpc'', JStr ''2.0''),
                           (''error'', JStr (''Error while processing '' @ str_format lib m)),
                           (''id'', i)]),
               Write [nl, nl],
               Flush]\<rparr>,
            Inr ()) \<and>
         multi_dispatch_loop lib self (payload # payloads) =
           multi_dispatch_loop lib (fst (dispatch_payload lib self payload)) payloads"
  using assms
  by (simp add: dispatch_payload_def on_exception_def send_result_def Plugin_log_def
      Plugin_notify_def)

theorem failed_dispatch_is_answered_and_logged_witness:
  \<open>snd (dispatch_payload python sample_plugin ''{"method":"echo","params":[],"id":4}'') = Inr () \<and>
   stdout (fst (dispatch_payload python sample_plugin ''{"method":"echo","params":[],"id":4}'')) =
     [Dump (JObj [(''jsonrpc'', JStr ''2.0''), (''method'', JStr ''log''),
                  (''params'',
                   JObj [(''level'', JStr ''info''),
                         (''message'',
                          JStr (traceback_text
                                  (TypeError (''missing a required argument: '' @ quoted ''x''))))])]),
      Write [nl, nl],
      Flush,
      Dump (JObj [(''jsonrpc'', JStr ''2.0''), (''error'', JStr ''Error while processing echo''),
                  (''id'', JInt 4)]),
      Write [nl, nl],
      Flush]\<close>
proof -
  let ?kvs = "[(''method'', JStr ''echo''), (''params'', JArr []), (''id'', JInt 4)]"
  have decoded: \<open>json_loads python ''{"method":"echo","params":[],"id":4}'' = Inr (JObj ?kvs)\<close>
    by code_simp
  have m: "map_of ?kvs ''method'' = Some (JStr ''echo'')" and i: "map_of ?kvs ''id'' = Some (JInt 4)"
    by simp_all
  have raised: "Plugin_dispatch python sample_plugin (JObj ?kvs) =
      (sample_plugin, Inl (TypeError (''missing a required argument: '' @ quoted ''x'')))"
    by (simp add: Plugin_dispatch.simps sample_plugin_eq bind_def inject_def echo_def)
  show ?thesis
    using failed_dispatch_is_answered_and_logged [OF decoded m i raised, of "[]"]
    by (simp add: python_simps sample_plugin_eq)
qed

subsection \<open>A successful call\<close>



subsection \<open>The init handshake\<close>

text \<open>
  C4. On a plugin for which no handler was registered under \<^verbatim>\<open>init\<close>, \<^verbatim>\<open>run\<close> does not
  answer an \<^verbatim>\<open>init\<close> request with null: lines 140 to 142 put \<^verbatim>\<open>_init\<close> into the table
  only when the user registered a handler, so the name is unknown, the branch of
  \<^verbatim>\<open>_init\<close> that returns \<^verbatim>\<open>None\<close> is never reached, and the request is answered with an
  error response and a logged \<^verbatim>\<open>ValueError\<close>.
\<close>

theorem init_without_user_handler_is_an_error:
  \<open>snd (Plugin_run python Plugin_new
          (readlines (''{"method":"init","params":{"options":{},"configuration":{}},"id":0}'' @ [nl, nl]))) =
     Inr () \<and>
   stdout (fst (Plugin_run python Plugin_new
          (readlines (''{"method":"init","params":{"options":{},"configuration":{}},"id":0}'' @ [nl, nl])))) =
     [Dump (JObj [(''jsonrpc'', JStr ''2.0''), (''method'', JStr ''log''),
                  (''params'',
                   JObj [(''level'', JStr ''info''),
                         (''message'',
                          JStr (traceback_text (ValueError ''No method init found.'')))])]),
      Write [nl, nl],
      Flush,
      Dump (JObj [(''jsonrpc'', JStr ''2.0''), (''error'', JStr ''Error while processing init''),
                  (''id'', JInt 0)]),
      Write [nl, nl],
      Flush]\<close>
  by code_simp

text \<open>
  The other half of the handshake holds. When a handler is registered under
  \<^verbatim>\<open>init\<close> and the request binds to the parameters of \<^verbatim>\<open>_init\<close>, the first \<^verbatim>\<open>init\<close>
  call after the stash does what dispatching to the user handler does, and leaves the
  table and the stash as they were before the stash; a second call then finds the user
  handler in the table.
\<close>

lemma bind_keywords_required:
  "bind_keywords ps kw = Inr (named, left) \<Longrightarrow> (k, None) \<in> set ps \<Longrightarrow> k \<in> fst ` set named"
proof (induction ps arbitrary: kw named left)
  case Nil
  then show ?case by simp
next
  case (Cons p ps)
  show ?case
  proof (cases "map_of kw (fst p)")
    case None
    with Cons.prems(1) obtain d where d: "snd p = Some d"
      and rec: "bind_keywords ps kw = Inr (named, left)"
      by (auto split: option.splits)
    from d Cons.prems(2) have "(k, None) \<in> set ps" by auto
    from Cons.IH [OF rec this] show ?thesis .
  next
    case (Some w)
    with Cons.prems(1) obtain named' where
      rec: "bind_keywords ps (AList.delete (fst p) kw) = Inr (named', left)"
      and n: "named = (fst p, w) # named'"
      by (auto split: sum.splits)
    show ?thesis
    proof (cases "p = (k, None)")
      case True
      with n show ?thesis by simp
    next
      case False
      with Cons.prems(2) have "(k, None) \<in> set ps" by auto
      from Cons.IH [OF rec this] n show ?thesis by simp
    qed
  qed
qed

lemma bind_positional_split:
  "bind_positional ps as kw = Inr (bound, rest) \<Longrightarrow>
     \<exists>pre. ps = pre @ rest \<and> map fst bound = map fst pre"
proof (induction ps as kw arbitrary: bound rest rule: bind_positional.induct)
  case (1 ps kwargs)
  then show ?case by simp
next
  case (2 a as kwargs)
  then show ?case by simp
next
  case (3 p ps a as kwargs)
  from "3.prems" have fresh: "fst p \<notin> fst ` set kwargs"
    by (simp split: if_splits)
  from "3.prems" fresh obtain bound' where
    rec: "bind_positional ps as kwargs = Inr (bound', rest)" and b: "bound = (fst p, a) # bound'"
    by (auto split: sum.splits)
  from "3.IH" [OF fresh rec] obtain pre where "ps = pre @ rest" "map fst bound' = map fst pre"
    by blast
  with b have "p # ps = (p # pre) @ rest \<and> map fst bound = map fst (p # pre)" by simp
  then show ?case by blast
qed

lemma bind_binds_required:
  assumes "bind sig as kw = Inr ba" and "(k, None) \<in> set sig"
  shows "\<exists>v. map_of ba k = Some v"
proof -
  from assms(1) obtain bound rest named left where
    pos: "bind_positional sig as kw = Inr (bound, rest)"
    and key: "bind_keywords rest kw = Inr (named, left)"
    and ba: "ba = bound @ named"
    by (auto simp: bind_def split: sum.splits list.splits prod.splits)
  from bind_positional_split [OF pos] obtain pre where
    pre: "sig = pre @ rest" "map fst bound = map fst pre"
    by blast
  have "k \<in> fst ` set ba"
  proof (cases "(k, None) \<in> set rest")
    case True
    from bind_keywords_required [OF key True] ba show ?thesis by auto
  next
    case False
    with assms(2) pre(1) have "(k, None) \<in> set pre" by auto
    then have "k \<in> set (map fst pre)" by force
    with pre(2) have "k \<in> set (map fst bound)" by simp
    with ba show ?thesis by auto
  qed
  then show ?thesis
    by (metis domD dom_map_of_conv_image_fst)
qed

lemma init_arguments:
  assumes "bind (signature Init) as (inject (signature Init) request kw) = Inr ba"
  shows "\<exists>a b. map snd (apply_defaults (signature Init) ba) = [a, b, AVal request]"
proof -
  obtain a where a: "map_of ba ''options'' = Some a"
    using bind_binds_required [OF assms, of "''options''"] by auto
  obtain b where b: "map_of ba ''configuration'' = Some b"
    using bind_binds_required [OF assms, of "''configuration''"] by auto
  have "map_of ba ''request'' = Some (AVal request)"
    by (rule bind_keeps_keyword [OF assms]) (simp_all add: inject_request)
  with a b show ?thesis by simp
qed

lemma first_init_call_reaches_user_handler:
  assumes "map_of (methods self) ''init'' = Some f"
      and "init self = None"
      and "map_of kvs ''method'' = Some (JStr ''init'')"
      and "map_of kvs ''params'' = Some params"
      and "bind (signature Init) (params_args params)
             (inject (signature Init) (JObj kvs) (params_kwargs params)) = Inr ba"
  shows "Plugin_dispatch lib (stash_init self) (JObj kvs) = Plugin_dispatch lib self (JObj kvs)"
proof -
  let ?stashed = "self\<lparr>init := Some f, methods := AList.update ''init'' Init (methods self)\<rparr>"
  from assms(1) have stashed: "stash_init self = ?stashed"
    by (simp add: stash_init_def)
  from init_arguments [OF assms(5)] obtain a b where
    args: "map snd (apply_defaults (signature Init) ba) = [a, b, AVal (JObj kvs)]"
    by auto
  have "Plugin_dispatch lib ?stashed (JObj kvs) = Plugin_init lib ?stashed a b (AVal (JObj kvs))"
    using assms(3,4,5) args
    by (subst Plugin_dispatch.simps) (simp add: update_conv')
  also have "\<dots> = Plugin_dispatch lib
       (?stashed\<lparr>methods := AList.update ''init'' f (methods ?stashed), init := None\<rparr>) (JObj kvs)"
    by (subst Plugin_init.simps) simp
  also have "?stashed\<lparr>methods := AList.update ''init'' f (methods ?stashed), init := None\<rparr> = self"
    using assms(1,2) by (cases self) (simp add: update_triv)
  finally show ?thesis by (simp add: stashed)
qed

lemma init_handshake_run:
  \<open>map (\<lambda>ev. case ev of Dump d \<Rightarrow> d | _ \<Rightarrow> JNull)
     (stdout (fst (Plugin_run python init_plugin
        (readlines
           (''{"method":"init","params":{"options":{},"configuration":{}},"id":0}'' @ [nl, nl] @
            ''{"method":"init","params":{"options":{},"configuration":{}},"id":1}'' @ [nl, nl]))))) =
   [JObj [(''jsonrpc'', JStr ''2.0''), (''result'', JStr ''ready''), (''id'', JInt 0)], JNull, JNull,
    JObj [(''jsonrpc'', JStr ''2.0''), (''result'', JStr ''ready''), (''id'', JInt 1)], JNull, JNull]\<close>
  by code_simp

subsection \<open>The reserved parameters\<close>

text \<open>
  C5, as the claim states it, fails: lines 86 to 90 set \<^verbatim>\<open>kwargs['plugin']\<close> and
  \<^verbatim>\<open>kwargs['request']\<close> whenever the signature declares the name, whether or not the
  caller supplied it. \<^verbatim>\<open>whoami\<close> returns the argument it is given, 5 when it is given
  5; called with \<^verbatim>\<open>{"plugin": 5}\<close> it receives the plugin, not 5.
\<close>

theorem caller_supplied_plugin_is_overwritten:
  "body whoami [(''plugin'', AVal (JInt 5))] = Inr (JInt 5) \<and>
   snd (Plugin_dispatch python sample_plugin
          (JObj [(''method'', JStr ''whoami''), (''params'', JObj [(''plugin'', JInt 5)]),
                 (''id'', JInt 1)])) = Inr (JStr ''the plugin'')"
  by (simp add: Plugin_dispatch.simps sample_plugin_eq bind_def inject_def whoami_def)

text \<open>
  C5, amended. For every dispatched request and every handler, each of the two reserved
  names is injected exactly when the handler declares it, whatever the caller supplied:
  whenever the arguments bind, the handler receives the plugin under \<^verbatim>\<open>plugin\<close> and the
  raw request under \<^verbatim>\<open>request\<close> if it declares the name, and a name that the handler
  does not declare is left in the caller's arguments as it was.
\<close>

theorem reserved_parameters_injected_when_declared:
  assumes "map_of kvs ''method'' = Some (JStr name)"
      and "map_of kvs ''params'' = Some params"
      and "map_of (methods self) name = Some (User h)"
      and "bind (parameters h) (params_args params)
             (inject (parameters h) (JObj kvs) (params_kwargs params)) = Inr ba"
  shows "Plugin_dispatch lib self (JObj kvs) = (self, body h (apply_defaults (parameters h) ba)) \<and>
         (''plugin'' \<in> fst ` set (parameters h) \<longrightarrow>
            map_of (apply_defaults (parameters h) ba) ''plugin'' = Some APlugin) \<and>
         (''request'' \<in> fst ` set (parameters h) \<longrightarrow>
            map_of (apply_defaults (parameters h) ba) ''request'' = Some (AVal (JObj kvs))) \<and>
         (\<forall>k. k \<notin> fst ` set (parameters h) \<longrightarrow>
            map_of (inject (parameters h) (JObj kvs) (params_kwargs params)) k =
              map_of (params_kwargs params) k)"
proof -
  have "Plugin_dispatch lib self (JObj kvs) = (self, body h (apply_defaults (parameters h) ba))"
    using assms by (simp add: Plugin_dispatch.simps)
  moreover have "map_of (apply_defaults (parameters h) ba) ''plugin'' = Some APlugin"
    if "''plugin'' \<in> fst ` set (parameters h)"
    using that by (intro apply_defaults_bound bind_keeps_keyword [OF assms(4)] inject_plugin)
  moreover have "map_of (apply_defaults (parameters h) ba) ''request'' = Some (AVal (JObj kvs))"
    if "''request'' \<in> fst ` set (parameters h)"
    using that by (intro apply_defaults_bound bind_keeps_keyword [OF assms(4)] inject_request)
  ultimately show ?thesis by (simp add: inject_undeclared)
qed

theorem reserved_parameters_injected_when_declared_witness:
  "''plugin'' \<in> fst ` set (parameters whoami) \<and>
   ''request'' \<notin> fst ` set (parameters whoami) \<and>
   map_of (apply_defaults (parameters whoami) [(''plugin'', APlugin)]) ''plugin'' = Some APlugin \<and>
   map_of (inject (parameters whoami)
             (JObj [(''method'', JStr ''whoami''),
                    (''params'', JObj [(''plugin'', JInt 5), (''request'', JInt 6)]), (''id'', JInt 1)])
             (params_kwargs (JObj [(''plugin'', JInt 5), (''request'', JInt 6)]))) ''request'' =
     Some (AVal (JInt 6))"
proof -
  let ?params = "JObj [(''plugin'', JInt 5), (''request'', JInt 6)]"
  let ?kvs = "[(''method'', JStr ''whoami''), (''params'', ?params), (''id'', JInt 1)]"
  have m: "map_of ?kvs ''method'' = Some (JStr ''whoami'')"
    and p: "map_of ?kvs ''params'' = Some ?params"
    by simp_all
  have registered: "map_of (methods sample_plugin) ''whoami'' = Some (User whoami)"
    by (simp add: sample_plugin_eq)
  let ?params1 = "JObj [(''plugin'', JInt 5)]"
  let ?kvs1 = "[(''method'', JStr ''whoami''), (''params'', ?params1), (''id'', JInt 1)]"
  have m1: "map_of ?kvs1 ''method'' = Some (JStr ''whoami'')"
    and p1: "map_of ?kvs1 ''params'' = Some ?params1"
    by simp_all
  have bound: "bind (parameters whoami) (params_args ?params1)
      (inject (parameters whoami) (JObj ?kvs1) (params_kwargs ?params1)) = Inr [(''plugin'', APlugin)]"
    by (simp add: bind_def inject_def whoami_def)
  have declared: "''plugin'' \<in> fst ` set (parameters whoami)"
    and undeclared: "''request'' \<notin> fst ` set (parameters whoami)"
    by (simp_all add: whoami_def)
  have "map_of (inject (parameters whoami) (JObj ?kvs) (params_kwargs ?params)) ''request'' =
      Some (AVal (JInt 6))"
    by (simp add: inject_def whoami_def update_conv')
  with reserved_parameters_injected_when_declared [OF m1 p1 registered bound, of python]
    declared undeclared
  show ?thesis by simp
qed

subsection \<open>The redirected stream\<close>

text \<open>
  C6, as the claim states it, fails: \<^verbatim>\<open>write\<close> flushes only when the payload ends in a
  newline (line 201), so writing \<^verbatim>\<open>"alpha\nbeta"\<close> to a fresh stream emits nothing and
  keeps the whole text, not only \<^verbatim>\<open>beta\<close>, in the buffer.
\<close>

theorem stream_write_alpha_beta_emits_nothing:
  "stdout (fst (fst (PluginStream_write Plugin_new (PluginStream_new ''info'') ''alpha\<newline>beta''))) = [] \<and>
   buff (snd (fst (PluginStream_write Plugin_new (PluginStream_new ''info'') ''alpha\<newline>beta''))) \<noteq> ''beta''"
  by (simp add: PluginStream_write_def PluginStream_new_def Plugin_new_eq)

text \<open>
  C6, amended. On a fresh stream, for every plugin and level, writing
  \<^verbatim>\<open>"alpha\nbeta"\<close> emits no notification and buffers the whole text; writing
  \<^verbatim>\<open>"\n"\<close> next logs \<^verbatim>\<open>alpha\<close> and then \<^verbatim>\<open>beta\<close>, two log notifications on the
  output stream of the plugin, and empties the buffer.
\<close>

theorem stream_write_flushes_on_trailing_newline:
  "PluginStream_write p (PluginStream_new lvl) ''alpha\<newline>beta'' =
     ((p, \<lparr>level = lvl, buff = ''alpha\<newline>beta''\<rparr>), Inr ()) \<and>
   PluginStream_write p \<lparr>level = lvl, buff = ''alpha\<newline>beta''\<rparr> ''\<newline>'' =
     ((Plugin_log (Plugin_log p ''alpha'' lvl) ''beta'' lvl, \<lparr>level = lvl, buff = []\<rparr>), Inr ()) \<and>
   stdout (Plugin_log (Plugin_log p ''alpha'' lvl) ''beta'' lvl) =
     stdout p @
     [Dump (JObj [(''jsonrpc'', JStr ''2.0''), (''method'', JStr ''log''),
                  (''params'', JObj [(''level'', JStr lvl), (''message'', JStr ''alpha'')])]),
      Write [nl, nl],
      Flush,
      Dump (JObj [(''jsonrpc'', JStr ''2.0''), (''method'', JStr ''log''),
                  (''params'', JObj [(''level'', JStr lvl), (''message'', JStr ''beta'')])]),
      Write [nl, nl],
      Flush]"
  by (simp add: PluginStream_write_def PluginStream_new_def PluginStream_flush_def str_split_def
      Plugin_log_def Plugin_notify_def)

subsection \<open>Registration\<close>

text \<open>
  C7. Registering a handler under a name that is already bound fails with the
  \<^verbatim>\<open>ValueError\<close> of line 56 and leaves the plugin, and so the table and the handler bound
  to the name, as they were.
\<close>

theorem add_method_duplicate_fails:
  assumes "name \<in> fst ` set (methods self)"
  shows "Plugin_add_method self name f =
           (self, Inl (ValueError (''Name '' @ name @ '' is already bound to a method.'')))"
  using assms by (simp add: Plugin_add_method_def)

theorem add_method_duplicate_fails_witness:
  "''getmanifest'' \<in> fst ` set (methods Plugin_new) \<and>
   Plugin_add_method Plugin_new ''getmanifest'' (User echo) =
     (Plugin_new, Inl (ValueError ''Name getmanifest is already bound to a method.''))"
proof -
  have bound: "''getmanifest'' \<in> fst ` set (methods Plugin_new)"
    by (simp add: Plugin_new_eq)
  show ?thesis
    using bound add_method_duplicate_fails [OF bound, of "User echo"] by simp
qed

subsection \<open>An unknown method\<close>

text \<open>
  C8. A request whose method name is not registered is answered with an error
  response that carries the id of the request, after the \<^verbatim>\<open>ValueError\<close> of line 78 has
  been logged, and the loop goes on with the next message.
\<close>

theorem unknown_method_yields_error_response:
  assumes "json_loads lib payload = Inr (JObj kvs)"
      and "map_of kvs ''method'' = Some (JStr name)"
      and "map_of kvs ''params'' = Some params"
      and "map_of kvs ''id'' = Some i"
      and "map_of (methods self) name = None"
  shows "dispatch_payload lib self payload =
           (send_result
              (Plugin_log self
                 (format_exc lib (ValueError (''No method '' @ str_format lib (JStr name) @ '' found.'')))
                 ''info'')
              (error_response lib (JStr name) i),
            Inr ()) \<and>
         response_ids (stdout (fst (dispatch_payload lib self payload))) =
           response_ids (stdout self) @ [i]"
proof -
  have "Plugin_dispatch lib self (JObj kvs) =
          (self, Inl (ValueError (''No method '' @ str_format lib (JStr name) @ '' found.'')))"
    by (rule dispatch_unknown [OF assms(2,3,5)])
  with assms(1,2,4) show ?thesis
    by (simp add: dispatch_payload_def on_exception_def error_response_def send_result_def
        response_ids_append response_ids_log)
qed

theorem unknown_method_yields_error_response_witness:
  \<open>dispatch_payload python Plugin_new ''{"method":"nope","params":{},"id":1}'' =
     (send_result
        (Plugin_log Plugin_new (traceback_text (ValueError ''No method nope found.'')) ''info'')
        (JObj [(''jsonrpc'', JStr ''2.0''), (''error'', JStr ''Error while processing nope''),
               (''id'', JInt 1)]),
      Inr ()) \<and>
   response_ids (stdout (fst (dispatch_payload python Plugin_new
      ''{"method":"nope","params":{},"id":1}''))) = [JInt 1]\<close>
proof -
  let ?kvs = "[(''method'', JStr ''nope''), (''params'', JObj []), (''id'', JInt 1)]"
  have decoded: \<open>json_loads python ''{"method":"nope","params":{},"id":1}'' = Inr (JObj ?kvs)\<close>
    by code_simp
  have m: "map_of ?kvs ''method'' = Some (JStr ''nope'')"
    and p: "map_of ?kvs ''params'' = Some (JObj [])"
    and i: "map_of ?kvs ''id'' = Some (JInt 1)"
    by simp_all
  have unknown: "map_of (methods Plugin_new) ''nope'' = None"
    by (simp add: Plugin_new_eq)
  show ?thesis
    using unknown_method_yields_error_response [OF decoded m p i unknown]
    by (simp add: error_response_def python_simps Plugin_new_eq send_result_def Plugin_log_def
        Plugin_notify_def)
qed

subsection \<open>The manifest\<close>

text \<open>
  C9. For every table of registered methods, \<^verbatim>\<open>_getmanifest\<close> returns the manifest of
  the specification: no options, and under \<^verbatim>\<open>rpcmethods\<close> one entry, with name and
  description, for every registered method other than \<^verbatim>\<open>getmanifest\<close> and \<^verbatim>\<open>init\<close>, in
  the order of registration; the names \<^verbatim>\<open>getmanifest\<close> and \<^verbatim>\<open>init\<close> are never listed.
\<close>

theorem getmanifest_lists_registered_methods:
  "snd (Plugin_getmanifest self) = Inr (manifest_of self) \<and>
   listed_names (manifest_of self) = map fst (filter reported (methods self)) \<and>
   ''getmanifest'' \<notin> set (listed_names (manifest_of self)) \<and>
   ''init'' \<notin> set (listed_names (manifest_of self))"
proof -
  obtain self' ms where loop: "getmanifest_loop self (methods self) [] = (self', ms)"
    by (cases "getmanifest_loop self (methods self) []")
  have "ms = map rpcmethod (filter reported (methods self))"
    using getmanifest_loop_entries [of self "methods self" "[]"] loop by simp
  then have result: "snd (Plugin_getmanifest self) = Inr (manifest_of self)"
    by (simp add: Plugin_getmanifest_def loop manifest_of_def)
  have names: "listed_names (manifest_of self) = map fst (filter reported (methods self))"
    by (simp add: listed_names_def manifest_of_def entry_names_rpcmethod)
  have "''getmanifest'' \<notin> fst ` set (filter reported (methods self))"
    and "''init'' \<notin> fst ` set (filter reported (methods self))"
    by (auto simp: reported_def)
  with result names show ?thesis by simp
qed

theorem getmanifest_lists_registered_methods_witness:
  "snd (Plugin_getmanifest (stash_init (fst (Plugin_add_method sample_plugin ''init'' (User user_init))))) =
     Inr (JObj [(''options'', JArr []),
                (''rpcmethods'',
                 JArr [JObj [(''name'', JStr ''echo''), (''description'', JStr ''Return the argument.'')],
                       JObj [(''name'', JStr ''whoami''),
                             (''description'', JStr ''Undocumented RPC method from a plugin.'')]])])"
  using getmanifest_lists_registered_methods
    [of "stash_init (fst (Plugin_add_method sample_plugin ''init'' (User user_init)))"]
  by (simp add: manifest_of_def sample_plugin_eq Plugin_add_method_def stash_init_def
      rpcmethod_def reported_def description_def echo_def whoami_def)

subsection \<open>A message without an id\<close>

text \<open>
  C10. A complete message that decodes to a dict without \<^verbatim>\<open>id\<close> is not answered: on
  the success path and in the exception handler \<^verbatim>\<open>request['id']\<close> (or, before it,
  \<^verbatim>\<open>request['method']\<close>) raises \<^verbatim>\<open>KeyError\<close>, which leaves \<^verbatim>\<open>_multi_dispatch\<close>; no
  response is written for the message, and when the messages before it in the buffer
  were answered, \<^verbatim>\<open>run\<close> ends with that \<^verbatim>\<open>KeyError\<close> and reads no further.
\<close>

theorem request_without_id_ends_the_loop:
  assumes "json_loads lib payload = Inr (JObj kvs)"
      and "map_of kvs ''id'' = None"
      and "str_split (partial @ l) [nl, nl] = Inr (before @ payload # msg # after)"
      and "\<forall>p \<in> set before. request_id lib p \<noteq> None"
  shows "dispatch_payload lib self payload =
           (fst (Plugin_dispatch lib self (JObj kvs)),
            Inl (KeyError (if map_of kvs ''method'' = None then ''method'' else ''id''))) \<and>
         response_ids (stdout (fst (dispatch_payload lib self payload))) = response_ids (stdout self) \<and>
         snd (run_loop lib self partial (l # ls)) =
           Inl (KeyError (if map_of kvs ''method'' = None then ''method'' else ''id''))"
proof -
  let ?err = "KeyError (if map_of kvs ''method'' = None then ''method'' else ''id'')"
  have one: "dispatch_payload lib s payload = (fst (Plugin_dispatch lib s (JObj kvs)), Inl ?err)" for s
  proof -
    obtain s' r where d: "Plugin_dispatch lib s (JObj kvs) = (s', r)"
      by (cases "Plugin_dispatch lib s (JObj kvs)")
    show ?thesis
      using assms(1,2) by (cases r) (simp_all add: dispatch_payload_def d on_exception_no_id)
  qed
  have silent: "response_ids (stdout (fst (dispatch_payload lib self payload))) =
      response_ids (stdout self)"
    by (simp add: one response_ids_dispatch)
  let ?msgs = "before @ payload # msg # after"
  have bl: "butlast ?msgs = before @ payload # butlast (msg # after)"
    by (simp add: butlast_append)
  obtain s0 where s0: "multi_dispatch_loop lib self before = (s0, Inr ())"
    using multi_dispatch_loop_answers [OF assms(4), of self]
    by (cases "multi_dispatch_loop lib self before") auto
  have "snd (multi_dispatch_loop lib self (butlast ?msgs)) = Inl ?err"
    by (simp only: bl multi_dispatch_loop_append s0) (simp add: one)
  then have "snd (Plugin_multi_dispatch lib self ?msgs) = Inl ?err"
    by (auto simp: Plugin_multi_dispatch_def split: prod.splits sum.splits)
  then have "snd (run_loop lib self partial (l # ls)) = Inl ?err"
    using assms(3) by (auto split: prod.splits sum.splits)
  with one [of self] silent show ?thesis by simp
qed

theorem request_without_id_ends_the_loop_witness:
  \<open>snd (dispatch_payload python Plugin_new ''{"method":"getmanifest","params":{}}'') =
     Inl (KeyError ''id'') \<and>
   snd (run_loop python Plugin_new ''{"method":"getmanifest","params":{}}''
          ([nl, nl] # [''{"method":"getmanifest","params":{},"id":1}'' @ [nl, nl]])) =
     Inl (KeyError ''id'')\<close>
proof -
  let ?p = \<open>''{"method":"getmanifest","params":{}}''\<close>
  let ?kvs = "[(''method'', JStr ''getmanifest''), (''params'', JObj [])]"
  have decoded: "json_loads python ?p = Inr (JObj ?kvs)"
    by code_simp
  have no_id: "map_of ?kvs ''id'' = None"
    by simp
  have segments: "str_split (?p @ [nl, nl]) [nl, nl] = Inr ([] @ ?p # [] # [])"
    by code_simp
  have before: "\<forall>q \<in> set []. request_id python q \<noteq> None"
    by simp
  show ?thesis
    using request_without_id_ends_the_loop [OF decoded no_id segments before,
        of Plugin_new "[''{\"method\":\"getmanifest\",\"params\":{},\"id\":1}'' @ [nl, nl]]"]
    by simp
qed

end
